theory Spec2Isabelle
  imports Main "HOL-Library.Word"
begin

section \<open>The Python bridge of graph-tool (src/graph/graph\_bind.cc)\<close>

text \<open>
  The file registers, for every value type of the library, the conversions between
  \<open>std::vector\<close>, \<open>std::pair\<close>, the degree selector variant and Python objects, the
  translation of the library's exceptions into Python errors, and two global hooks for
  pickling. The definitions below follow the functions of that file one by one. What the
  file takes from Boost.Python and from headers of the library that are not part of it
  (the conversions of single elements, the layout of the exception classes, the list of
  numeric types) is a parameter of the definitions.
\<close>

subsection \<open>Sequence comparison\<close>

text \<open>
  \<open>vector_equal_compare\<close>: the sizes are compared first, then the loop
  \<open>for (i = 0; i < v1.size(); ++i)\<close> returns false at the first index where the
  elements differ. The loop is the recursion on \<open>i\<close>; \<open>v2[i]\<close> is read only
  below \<open>v1.size()\<close>, which equals \<open>v2.size()\<close> there. The comparison
  \<open>v1[i] != v2[i]\<close> is the operator \<open>!=\<close> of the value type, the parameter \<open>ne\<close>:
  for the floating-point value types it is true of a NaN and itself.
\<close>

function vector_equal_loop ::
  "('a \<Rightarrow> 'a \<Rightarrow> bool) \<Rightarrow> 'a list \<Rightarrow> 'a list \<Rightarrow> nat \<Rightarrow> bool" where
  "vector_equal_loop ne v1 v2 i =
     (if i < length v1
      then (if ne (v1 ! i) (v2 ! i) then False else vector_equal_loop ne v1 v2 (Suc i))
      else True)"
  by pat_completeness auto
termination
  by (relation "measure (\<lambda>(ne, v1, v2, i). length v1 - i)") auto

declare vector_equal_loop.simps [simp del]

definition vector_equal_compare ::
  "('a \<Rightarrow> 'a \<Rightarrow> bool) \<Rightarrow> 'a list \<Rightarrow> 'a list \<Rightarrow> bool" where
  "vector_equal_compare ne v1 v2 =
     (if length v1 \<noteq> length v2 then False else vector_equal_loop ne v1 v2 0)"

definition vector_nequal_compare ::
  "('a \<Rightarrow> 'a \<Rightarrow> bool) \<Rightarrow> 'a list \<Rightarrow> 'a list \<Rightarrow> bool" where
  "vector_nequal_compare ne v1 v2 = (\<not> vector_equal_compare ne v1 v2)"

text \<open>
  Two value types for the examples: integers, whose \<open>!=\<close> is disequality, and a
  floating-point type reduced to what its comparison distinguishes, a number or NaN,
  whose \<open>!=\<close> is true whenever one side is NaN.
\<close>

definition int_ne :: "int \<Rightarrow> int \<Rightarrow> bool" where
  "int_ne x y = (x \<noteq> y)"

datatype fl = NaN | Num int

fun fl_ne :: "fl \<Rightarrow> fl \<Rightarrow> bool" where
  "fl_ne (Num x) (Num y) = (x \<noteq> y)"
| "fl_ne x y = True"

subsection \<open>Python objects\<close>

text \<open>
  The converters receive a \<open>PyObject*\<close> and use two operations of it: \<open>len(o)\<close> and
  \<open>o[i]\<close> with an index \<open>i\<close> of type \<open>size_t\<close>. Lists, tuples and strings have a
  length and positional elements; \<open>None\<close> and integers have neither, and both calls raise
  on them. An index at or beyond the length raises \<open>IndexError\<close>. Boost.Python turns a
  raised Python error into a C++ exception that leaves the calling function, so both
  operations return a sum.
\<close>

datatype pyobj =
    PyNone
  | PyInt int
  | PyStr string
  | PyTuple "pyobj list"
  | PyList "pyobj list"

datatype error =
    TypeConversion
  | HostIndexError
  | HostTypeError
  | HostOverflowError

fun py_len :: "pyobj \<Rightarrow> error + nat" where
  "py_len (PyList xs) = Inr (length xs)"
| "py_len (PyTuple xs) = Inr (length xs)"
| "py_len (PyStr s) = Inr (length s)"
| "py_len PyNone = Inl HostTypeError"
| "py_len (PyInt n) = Inl HostTypeError"

fun py_getitem :: "pyobj \<Rightarrow> nat \<Rightarrow> error + pyobj" where
  "py_getitem (PyList xs) i = (if i < length xs then Inr (xs ! i) else Inl HostIndexError)"
| "py_getitem (PyTuple xs) i = (if i < length xs then Inr (xs ! i) else Inl HostIndexError)"
| "py_getitem (PyStr s) i = (if i < length s then Inr (PyStr [s ! i]) else Inl HostIndexError)"
| "py_getitem PyNone i = Inl HostTypeError"
| "py_getitem (PyInt n) i = Inl HostTypeError"

text \<open>The positional elements of a host sequence, for stating properties of it.\<close>

fun py_items :: "pyobj \<Rightarrow> pyobj list option" where
  "py_items (PyList xs) = Some xs"
| "py_items (PyTuple xs) = Some xs"
| "py_items (PyStr s) = Some (map (\<lambda>c. PyStr [c]) s)"
| "py_items PyNone = None"
| "py_items (PyInt n) = None"

subsection \<open>Conversion of single elements\<close>

text \<open>
  \<open>extract<ValueType>\<close> and the conversion of a \<open>ValueType\<close> to Python belong to
  Boost.Python and are given per value type: \<open>check\<close> is \<open>extract<T>(o).check()\<close>,
  \<open>extract_val\<close> is the use of \<open>extract<T>(o)\<close> as a value of \<open>T\<close>, which may throw,
  and \<open>to_python\<close> is the conversion of a \<open>T\<close> to a Python object.
\<close>

record 'v elem_conv =
  check :: "pyobj \<Rightarrow> bool"
  extract_val :: "pyobj \<Rightarrow> error + 'v"
  to_python :: "'v \<Rightarrow> pyobj"

subsection \<open>The converter registry\<close>

text \<open>
  An entry of the registry is what \<open>converter::registry::push_back\<close> receives: the
  function \<open>convertible\<close>, returning the object (true), a null pointer (false) or
  throwing, and the function \<open>construct\<close>.
\<close>

record 'v rvalue_converter =
  convertible :: "pyobj \<Rightarrow> error + bool"
  construct :: "pyobj \<Rightarrow> error + 'v"

text \<open>
  Modelled from the spec: a registration adds exactly one entry for the native type;
  \<open>push_back\<close> puts it behind the entries registered before, so that the entries
  stand in the order of their registration.
\<close>

definition registry_push_back ::
  "'v rvalue_converter list \<Rightarrow> 'v rvalue_converter \<Rightarrow> 'v rvalue_converter list" where
  "registry_push_back chain e = chain @ [e]"

text \<open>
  Modelled from the spec: the probing of the entries registered for one native type,
  which is Boost.Python's and not in the file. The candidates are probed in the order of
  their registration; the first one whose \<open>convertible\<close> succeeds constructs the value;
  if none succeeds the conversion fails with \<open>TypeConversion\<close>. An exception thrown by
  \<open>convertible\<close> or \<open>construct\<close> leaves the conversion.
\<close>

fun rvalue_from_python :: "'v rvalue_converter list \<Rightarrow> pyobj \<Rightarrow> error + 'v" where
  "rvalue_from_python [] obj = Inl TypeConversion"
| "rvalue_from_python (e # es) obj =
     (case convertible e obj of
        Inl err \<Rightarrow> Inl err
      | Inr True \<Rightarrow> construct e obj
      | Inr False \<Rightarrow> rvalue_from_python es obj)"

subsection \<open>Sequences: \<open>vector_from_list\<close>\<close>

text \<open>
  \<open>convertible\<close>: \<open>N = len(o)\<close>, then for \<open>i\<close> from 0 below \<open>N\<close> the element
  \<open>o[i]\<close> is checked and the first failing check returns 0.
\<close>

function vector_convertible_loop ::
  "'v elem_conv \<Rightarrow> pyobj \<Rightarrow> nat \<Rightarrow> nat \<Rightarrow> error + bool" where
  "vector_convertible_loop c obj N i =
     (if i < N
      then (case py_getitem obj i of
              Inl err \<Rightarrow> Inl err
            | Inr x \<Rightarrow>
                (if \<not> check c x then Inr False
                 else vector_convertible_loop c obj N (Suc i)))
      else Inr True)"
  by pat_completeness auto
termination
  by (relation "measure (\<lambda>(c, obj, N, i). N - i)") auto

declare vector_convertible_loop.simps [simp del]

definition vector_from_list_convertible :: "'v elem_conv \<Rightarrow> pyobj \<Rightarrow> error + bool" where
  "vector_from_list_convertible c obj =
     (case py_len obj of
        Inl err \<Rightarrow> Inl err
      | Inr N \<Rightarrow> vector_convertible_loop c obj N 0)"

text \<open>
  \<open>construct\<close>: the vector \<open>value\<close> starts empty and receives
  \<open>extract<ValueType>(o[i])\<close> by \<open>push_back\<close> for \<open>i\<close> from 0 below \<open>len(o)\<close>; no
  check is made here.
\<close>

function vector_construct_loop ::
  "'v elem_conv \<Rightarrow> pyobj \<Rightarrow> nat \<Rightarrow> nat \<Rightarrow> 'v list \<Rightarrow> error + 'v list" where
  "vector_construct_loop c obj N i val =
     (if i < N
      then (case py_getitem obj i of
              Inl err \<Rightarrow> Inl err
            | Inr x \<Rightarrow>
                (case extract_val c x of
                   Inl err \<Rightarrow> Inl err
                 | Inr v \<Rightarrow> vector_construct_loop c obj N (Suc i) (val @ [v])))
      else Inr val)"
  by pat_completeness auto
termination
  by (relation "measure (\<lambda>(c, obj, N, i, val). N - i)") auto

declare vector_construct_loop.simps [simp del]

definition vector_from_list_construct :: "'v elem_conv \<Rightarrow> pyobj \<Rightarrow> error + 'v list" where
  "vector_from_list_construct c obj =
     (case py_len obj of
        Inl err \<Rightarrow> Inl err
      | Inr N \<Rightarrow> vector_construct_loop c obj N 0 [])"

text \<open>
  The constructor \<open>vector_from_list()\<close> appends the two functions to the entries of
  \<open>vector<ValueType>\<close>; \<open>export_vector_types\<close> runs it once per value type.
\<close>

definition vector_from_list :: "'v elem_conv \<Rightarrow> 'v list rvalue_converter" where
  "vector_from_list c =
     \<lparr>convertible = vector_from_list_convertible c,
      construct = vector_from_list_construct c\<rparr>"

definition vector_registry :: "'v elem_conv \<Rightarrow> 'v list rvalue_converter list" where
  "vector_registry c = registry_push_back [] (vector_from_list c)"

definition vector_fromHost :: "'v elem_conv \<Rightarrow> pyobj \<Rightarrow> error + 'v list" where
  "vector_fromHost c obj = rvalue_from_python (vector_registry c) obj"

text \<open>
  Modelled from the spec: the host's view of a native sequence, which is
  \<open>vector_indexing_suite\<close> of Boost.Python: an ordered sequence of the same length whose
  element at each index is the host image of the native element.
\<close>

definition vector_toHost :: "'v elem_conv \<Rightarrow> 'v list \<Rightarrow> pyobj list" where
  "vector_toHost c vec = map (to_python c) vec"

subsection \<open>Pairs: \<open>pair_to_tuple\<close> and \<open>pair_from_tuple\<close>\<close>

definition pair_to_tuple_convert ::
  "'a elem_conv \<Rightarrow> 'b elem_conv \<Rightarrow> 'a \<times> 'b \<Rightarrow> pyobj" where
  "pair_to_tuple_convert c1 c2 p = PyTuple [to_python c1 (fst p), to_python c2 (snd p)]"

text \<open>
  \<open>convertible\<close> reads \<open>o[0]\<close> and \<open>o[1]\<close>, in this order and without asking for the
  length, and then checks both.
\<close>

definition pair_from_tuple_convertible ::
  "'a elem_conv \<Rightarrow> 'b elem_conv \<Rightarrow> pyobj \<Rightarrow> error + bool" where
  "pair_from_tuple_convertible c1 c2 obj =
     (case py_getitem obj 0 of
        Inl err \<Rightarrow> Inl err
      | Inr first \<Rightarrow>
          (case py_getitem obj 1 of
             Inl err \<Rightarrow> Inl err
           | Inr second \<Rightarrow>
               (if \<not> check c1 first \<or> \<not> check c2 second then Inr False else Inr True)))"

definition pair_from_tuple_construct ::
  "'a elem_conv \<Rightarrow> 'b elem_conv \<Rightarrow> pyobj \<Rightarrow> error + 'a \<times> 'b" where
  "pair_from_tuple_construct c1 c2 obj =
     (case py_getitem obj 0 of
        Inl err \<Rightarrow> Inl err
      | Inr x \<Rightarrow>
          (case extract_val c1 x of
             Inl err \<Rightarrow> Inl err
           | Inr first \<Rightarrow>
               (case py_getitem obj 1 of
                  Inl err \<Rightarrow> Inl err
                | Inr y \<Rightarrow>
                    (case extract_val c2 y of
                       Inl err \<Rightarrow> Inl err
                     | Inr second \<Rightarrow> Inr (first, second)))))"

definition pair_from_tuple ::
  "'a elem_conv \<Rightarrow> 'b elem_conv \<Rightarrow> ('a \<times> 'b) rvalue_converter" where
  "pair_from_tuple c1 c2 =
     \<lparr>convertible = pair_from_tuple_convertible c1 c2,
      construct = pair_from_tuple_construct c1 c2\<rparr>"

definition pair_registry ::
  "'a elem_conv \<Rightarrow> 'b elem_conv \<Rightarrow> ('a \<times> 'b) rvalue_converter list" where
  "pair_registry c1 c2 = registry_push_back [] (pair_from_tuple c1 c2)"

definition pair_fromHost :: "'a elem_conv \<Rightarrow> 'b elem_conv \<Rightarrow> pyobj \<Rightarrow> error + 'a \<times> 'b" where
  "pair_fromHost c1 c2 obj = rvalue_from_python (pair_registry c1 c2) obj"

subsection \<open>The degree selector: \<open>variant_from_python\<close>\<close>

text \<open>
  \<open>GraphInterface::deg_t\<close> holds either a value of the enumeration \<open>degree_t\<close> or a
  \<open>boost::any\<close>. \<open>variant_from_python<ValueType>\<close> registers, for the target
  \<open>deg_t\<close>, a converter that accepts what \<open>extract<ValueType>\<close> accepts and stores the
  extracted value as that alternative (\<open>alt\<close>).
\<close>

datatype degree_t = IN_DEGREE | OUT_DEGREE | TOTAL_DEGREE

datatype 'a deg_t = DegreeAlt degree_t | AnyAlt 'a

definition variant_from_python_convertible :: "'v elem_conv \<Rightarrow> pyobj \<Rightarrow> error + bool" where
  "variant_from_python_convertible c obj = (if \<not> check c obj then Inr False else Inr True)"

definition variant_from_python_construct ::
  "('v \<Rightarrow> 'a deg_t) \<Rightarrow> 'v elem_conv \<Rightarrow> pyobj \<Rightarrow> error + 'a deg_t" where
  "variant_from_python_construct alt c obj =
     (case extract_val c obj of
        Inl err \<Rightarrow> Inl err
      | Inr v \<Rightarrow> Inr (alt v))"

definition variant_from_python ::
  "('v \<Rightarrow> 'a deg_t) \<Rightarrow> 'v elem_conv \<Rightarrow> 'a deg_t rvalue_converter" where
  "variant_from_python alt c =
     \<lparr>convertible = variant_from_python_convertible c,
      construct = variant_from_python_construct alt c\<rparr>"

text \<open>
  The module registers \<open>variant_from_python<boost::any>()\<close> and then
  \<open>variant_from_python<GraphInterface::degree_t>()\<close>.
\<close>

definition deg_t_registry ::
  "'a elem_conv \<Rightarrow> degree_t elem_conv \<Rightarrow> 'a deg_t rvalue_converter list" where
  "deg_t_registry c_any c_degree =
     registry_push_back
       (registry_push_back [] (variant_from_python AnyAlt c_any))
       (variant_from_python DegreeAlt c_degree)"

definition deg_t_fromHost ::
  "'a elem_conv \<Rightarrow> degree_t elem_conv \<Rightarrow> pyobj \<Rightarrow> error + 'a deg_t" where
  "deg_t_fromHost c_any c_degree obj = rvalue_from_python (deg_t_registry c_any c_degree) obj"

subsection \<open>Exported sequence classes: \<open>export_vector_types\<close>\<close>

text \<open>
  For a value type the class \<open>Vector_<name>\<close> is defined with the indexing suite, with
  \<open>__eq__\<close> and \<open>__ne__\<close> bound to the two comparisons, and, through the overload of
  \<open>wrap_array\<close> selected by \<open>mpl::has_key<numpy_types,ValueType>\<close>, with
  \<open>get_array\<close> bound to \<open>wrap_vector_not_owned\<close> when the type is one of
  \<open>numpy_types\<close>. The name of the type and \<open>numpy_types\<close> come from headers outside
  the file and are parameters.
\<close>

datatype method_impl =
    IndexingSuite
  | VectorEqualCompare
  | VectorNequalCompare
  | WrapVectorNotOwned

definition wrap_array :: "bool \<Rightarrow> (string \<times> method_impl) list" where
  "wrap_array has_key = (if has_key then [(''get_array'', WrapVectorNotOwned)] else [])"

definition export_vector_type ::
  "string list \<Rightarrow> string \<Rightarrow> string \<times> (string \<times> method_impl) list" where
  "export_vector_type numpy_types type_name =
     (let type_name' = (if type_name = ''long double'' then ''long_double'' else type_name);
          name = ''Vector_'' @ type_name'
      in (name,
          [(''vector_indexing_suite'', IndexingSuite),
           (''__eq__'', VectorEqualCompare),
           (''__ne__'', VectorNequalCompare)]
          @ wrap_array (type_name \<in> set numpy_types)))"

text \<open>
  Native sequences live in a store, addressed by the location of the vector object; the
  host's \<open>Vector_<name>\<close> instance holds that vector, and its element access (the
  indexing suite) reads the store.
\<close>

type_synonym 'a store = "nat \<Rightarrow> 'a list option"

definition vector_get_item :: "'a store \<Rightarrow> nat \<Rightarrow> nat \<Rightarrow> 'a option" where
  "vector_get_item st a i =
     (case st a of
        None \<Rightarrow> None
      | Some v \<Rightarrow> (if i < length v then Some (v ! i) else None))"

text \<open>
  Modelled from the spec: \<open>wrap_vector_not_owned\<close>, declared in \<open>numpy_bind.hh\<close>, which
  is not among the sources. The spec: it returns a non-owning, mutable, zero-copy buffer
  view directly over the native sequence's backing storage, with the sequence's current
  length. The view is the address of the storage and the length; it owns no elements.
\<close>

record array_view =
  data :: nat
  dims :: nat

definition wrap_vector_not_owned :: "'a store \<Rightarrow> nat \<Rightarrow> array_view option" where
  "wrap_vector_not_owned st a =
     (case st a of
        None \<Rightarrow> None
      | Some v \<Rightarrow> Some \<lparr>data = a, dims = length v\<rparr>)"

text \<open>
  Modelled from the spec: reading and writing an element through the view, which goes to
  the storage the view points to (mutating the exported buffer view mutates the original
  native sequence's elements in place).
\<close>

definition array_view_get :: "'a store \<Rightarrow> array_view \<Rightarrow> nat \<Rightarrow> 'a option" where
  "array_view_get st arr i =
     (case st (data arr) of
        None \<Rightarrow> None
      | Some v \<Rightarrow> (if i < dims arr \<and> i < length v then Some (v ! i) else None))"

definition array_view_set :: "'a store \<Rightarrow> array_view \<Rightarrow> nat \<Rightarrow> 'a \<Rightarrow> 'a store option" where
  "array_view_set st arr i x =
     (case st (data arr) of
        None \<Rightarrow> None
      | Some v \<Rightarrow>
          (if i < dims arr \<and> i < length v
           then Some (st (data arr := Some (v[i := x])))
           else None))"

subsection \<open>Exception translation\<close>

text \<open>
  \<open>graph_exception_translator<Exception>\<close> is a template over the static type of the
  exception. The three types the module registers it for have a constructor each; any
  other type the template could be instantiated with is \<open>OtherType\<close> with its name. Of
  the exception object only \<open>e.what()\<close> is read.
\<close>

datatype exception_type =
    GraphException
  | IOException
  | ValueException
  | OtherType string

datatype py_exc_class =
    PyExc_RuntimeError
  | PyExc_IOError
  | PyExc_ValueError
  | PyExc_TypeError

datatype fault = UnsetCategory

text \<open>
  The part of the interpreter's state the translator works on: the attributes of the
  exception classes and the error indicator, which holds the class of the pending error
  and its text.
\<close>

record py_error_state =
  class_attr :: "py_exc_class \<Rightarrow> string \<Rightarrow> string option"
  raised :: "(py_exc_class \<times> string) option"

text \<open>
  The two calls of the C API the translator makes. The object \<open>error\<close> it passes to
  \<open>PyObject_SetAttrString\<close> is one of the interpreter's built-in exception classes;
  a built-in class takes no new attributes, so the call stores nothing, leaves a
  \<open>TypeError\<close> pending and returns -1. \<open>PyErr_SetString\<close> makes the given class
  and text the pending error, replacing what was pending.
\<close>

definition PyObject_SetAttrString ::
  "py_exc_class \<Rightarrow> string \<Rightarrow> string \<Rightarrow> py_error_state \<Rightarrow> int \<times> py_error_state" where
  "PyObject_SetAttrString cls name v st =
     (- 1, st\<lparr>raised := Some (PyExc_TypeError, ''can't set attributes of built-in/extension type'')\<rparr>)"

definition PyErr_SetString :: "py_exc_class \<Rightarrow> string \<Rightarrow> py_error_state \<Rightarrow> py_error_state" where
  "PyErr_SetString cls text st = st\<lparr>raised := Some (cls, text)\<rparr>"

definition is_same :: "exception_type \<Rightarrow> exception_type \<Rightarrow> bool" where
  "is_same a b = (a = b)"

text \<open>
  The local variable \<open>error\<close> is declared without a value (\<open>None\<close>) and assigned in
  three \<open>if\<close> statements that follow one another.
\<close>

definition translator_error :: "exception_type \<Rightarrow> py_exc_class option" where
  "translator_error E =
     (let error0 = None;
          error1 = (if is_same E GraphException then Some PyExc_RuntimeError else error0);
          error2 = (if is_same E IOException then Some PyExc_IOError else error1);
          error3 = (if is_same E ValueException then Some PyExc_ValueError else error2)
      in error3)"

text \<open>
  The two calls that follow use \<open>error\<close>; reading it while it has no value is the fault
  \<open>UnsetCategory\<close>. The result of \<open>PyObject_SetAttrString\<close> is not looked at.
\<close>

definition graph_exception_translator ::
  "exception_type \<Rightarrow> string \<Rightarrow> py_error_state \<Rightarrow> fault + py_error_state" where
  "graph_exception_translator E what st =
     (case translator_error E of
        None \<Rightarrow> Inl UnsetCategory
      | Some error \<Rightarrow>
          (let message = what;
               st1 = snd (PyObject_SetAttrString error ''message'' message st);
               st2 = PyErr_SetString error what st1
           in Inr st2))"




subsection \<open>Pickling hooks\<close>

text \<open>
  \<open>graph_tool::object_pickler\<close> and \<open>graph_tool::object_unpickler\<close> are two global
  objects; the rest of the state of the bridge is the extension of the record.
\<close>

record 'o bridge_state =
  object_pickler :: 'o
  object_unpickler :: 'o

definition set_pickler :: "'o \<Rightarrow> ('o, 'z) bridge_state_scheme \<Rightarrow> ('o, 'z) bridge_state_scheme" where
  "set_pickler obj st = st\<lparr>object_pickler := obj\<rparr>"

definition set_unpickler :: "'o \<Rightarrow> ('o, 'z) bridge_state_scheme \<Rightarrow> ('o, 'z) bridge_state_scheme" where
  "set_unpickler obj st = st\<lparr>object_unpickler := obj\<rparr>"

subsection \<open>An element type for the examples\<close>

text \<open>
  Integers of unbounded size: a Python integer is accepted and converted to its value,
  everything else is rejected.
\<close>

fun is_py_int :: "pyobj \<Rightarrow> bool" where
  "is_py_int (PyInt n) = True"
| "is_py_int obj = False"

fun py_int_value :: "pyobj \<Rightarrow> error + int" where
  "py_int_value (PyInt n) = Inr n"
| "py_int_value obj = Inl HostTypeError"

definition int_conv :: "int elem_conv" where
  "int_conv = \<lparr>check = is_py_int, extract_val = py_int_value, to_python = PyInt\<rparr>"

text \<open>
  The value type \<open>int64_t\<close>, with the conversion Boost.Python has for a signed integer
  type: \<open>check\<close> looks at the type of the object only and accepts every Python
  integer, the extraction throws \<open>OverflowError\<close> for an integer outside the range of
  the type, and the conversion to Python gives the integer of the same value.
\<close>

fun py_int64_value :: "pyobj \<Rightarrow> error + 64 word" where
  "py_int64_value (PyInt n) =
     (if - (2 ^ 63) \<le> n \<and> n < 2 ^ 63 then Inr (word_of_int n) else Inl HostOverflowError)"
| "py_int64_value obj = Inl HostTypeError"

definition int64_conv :: "64 word elem_conv" where
  "int64_conv =
     \<lparr>check = is_py_int, extract_val = py_int64_value, to_python = (\<lambda>w. PyInt (sint w))\<rparr>"

text \<open>
  Strings, and the degree selector written as one of the integers 0, 1 and 2.
\<close>

fun is_py_str :: "pyobj \<Rightarrow> bool" where
  "is_py_str (PyStr s) = True"
| "is_py_str obj = False"

fun py_str_value :: "pyobj \<Rightarrow> error + string" where
  "py_str_value (PyStr s) = Inr s"
| "py_str_value obj = Inl HostTypeError"

definition str_conv :: "string elem_conv" where
  "str_conv = \<lparr>check = is_py_str, extract_val = py_str_value, to_python = PyStr\<rparr>"

fun py_degree_value :: "pyobj \<Rightarrow> error + degree_t" where
  "py_degree_value (PyInt n) =
     (if n = 0 then Inr IN_DEGREE
      else if n = 1 then Inr OUT_DEGREE
      else if n = 2 then Inr TOTAL_DEGREE
      else Inl HostTypeError)"
| "py_degree_value obj = Inl HostTypeError"

fun degree_to_python :: "degree_t \<Rightarrow> pyobj" where
  "degree_to_python IN_DEGREE = PyInt 0"
| "degree_to_python OUT_DEGREE = PyInt 1"
| "degree_to_python TOTAL_DEGREE = PyInt 2"

fun is_py_degree :: "pyobj \<Rightarrow> bool" where
  "is_py_degree (PyInt n) = (n = 0 \<or> n = 1 \<or> n = 2)"
| "is_py_degree obj = False"

definition degree_conv :: "degree_t elem_conv" where
  "degree_conv =
     \<lparr>check = is_py_degree,
      extract_val = py_degree_value,
      to_python = degree_to_python\<rparr>"

subsection \<open>Properties of the comparison\<close>

lemma vector_equal_loop_iff:
  "vector_equal_loop ne v1 v2 i =
     (\<forall>j. i \<le> j \<and> j < length v1 \<longrightarrow> \<not> ne (v1 ! j) (v2 ! j))"
proof (induction ne v1 v2 i rule: vector_equal_loop.induct)
  case (1 ne v1 v2 i)
  show ?case
  proof (cases "i < length v1")
    case False
    then show ?thesis
      by (subst vector_equal_loop.simps) auto
  next
    case inside: True
    show ?thesis
    proof (cases "ne (v1 ! i) (v2 ! i)")
      case True
      with inside show ?thesis
        by (subst vector_equal_loop.simps) auto
    next
      case False
      have "vector_equal_loop ne v1 v2 i = vector_equal_loop ne v1 v2 (Suc i)"
        using inside False by (subst vector_equal_loop.simps) simp
      also have "\<dots> = (\<forall>j. Suc i \<le> j \<and> j < length v1 \<longrightarrow> \<not> ne (v1 ! j) (v2 ! j))"
        using "1.IH" inside False by simp
      also have "\<dots> = (\<forall>j. i \<le> j \<and> j < length v1 \<longrightarrow> \<not> ne (v1 ! j) (v2 ! j))"
        using False by (metis Suc_leI le_neq_implies_less Suc_leD)
      finally show ?thesis .
    qed
  qed
qed

text \<open>
  C7. For two sequences \<open>a\<close> and \<open>b\<close> of one value type, \<open>vector_equal_compare\<close> is
  true exactly when \<open>a\<close> and \<open>b\<close> have the same length and at every index the elements
  are equal in the sense of the value type, that is, its operator \<open>!=\<close> is false of
  them. (A floating-point sequence holding a NaN is therefore not equal to itself.)
\<close>

theorem vector_equal_compare_iff:
  "vector_equal_compare ne a b =
     (length a = length b \<and> (\<forall>i. i < length a \<longrightarrow> \<not> ne (a ! i) (b ! i)))"
  by (simp add: vector_equal_compare_def vector_equal_loop_iff)

theorem vector_equal_compare_iff_witness:
  "vector_equal_compare int_ne [1, 2, 3] [1, 2, 3] = True
   \<and> length [1, 2, 3 :: int] = length [1, 2, 3 :: int]
   \<and> vector_equal_compare int_ne [1, 2, 3] [1, 5, 3] = False
   \<and> int_ne ([1, 2, 3] ! 1) ([1, 5, 3] ! 1)
   \<and> vector_equal_compare int_ne [1, 2] [1, 2, 3] = False
   \<and> vector_equal_compare fl_ne [Num 1, Num 2] [Num 1, Num 2] = True
   \<and> vector_equal_compare fl_ne [Num 1, NaN] [Num 1, NaN] = False
   \<and> fl_ne ([Num 1, NaN] ! 1) ([Num 1, NaN] ! 1)"
  using vector_equal_compare_iff [of int_ne "[1, 2, 3]" "[1, 2, 3]"]
    vector_equal_compare_iff [of int_ne "[1, 2, 3]" "[1, 5, 3]"]
    vector_equal_compare_iff [of int_ne "[1, 2]" "[1, 2, 3]"]
    vector_equal_compare_iff [of fl_ne "[Num 1, Num 2]" "[Num 1, Num 2]"]
    vector_equal_compare_iff [of fl_ne "[Num 1, NaN]" "[Num 1, NaN]"]
  by (auto simp: int_ne_def nth_Cons split: nat.splits)

text \<open>
  C8. \<open>vector_nequal_compare a b\<close> is the negation of \<open>vector_equal_compare a b\<close>, for
  all sequences \<open>a\<close> and \<open>b\<close> of one element type.
\<close>

theorem vector_nequal_is_negation:
  "vector_nequal_compare ne a b = (\<not> vector_equal_compare ne a b)"
  by (simp add: vector_nequal_compare_def)

subsection \<open>Properties of the sequence converter\<close>

text \<open>
  A host sequence answers \<open>len\<close> with the number of its elements and \<open>o[i]\<close> with
  its element for every index below that number.
\<close>

lemma py_items_len: "py_items obj = Some xs \<Longrightarrow> py_len obj = Inr (length xs)"
  by (cases obj) auto

lemma py_items_getitem:
  "py_items obj = Some xs \<Longrightarrow> i < length xs \<Longrightarrow> py_getitem obj i = Inr (xs ! i)"
  by (cases obj) auto

lemma vector_convertible_loop_drop:
  assumes "py_items obj = Some xs"
  shows "i \<le> length xs \<Longrightarrow>
    vector_convertible_loop c obj (length xs) i = Inr (list_all (check c) (drop i xs))"
proof (induction "length xs - i" arbitrary: i)
  case 0
  then show ?case
    by (subst vector_convertible_loop.simps) simp
next
  case (Suc n)
  then have lt: "i < length xs" by simp
  have step: "drop i xs = xs ! i # drop (Suc i) xs"
    using lt by (simp add: Cons_nth_drop_Suc)
  have IH: "vector_convertible_loop c obj (length xs) (Suc i)
      = Inr (list_all (check c) (drop (Suc i) xs))"
    using Suc lt by (intro Suc.hyps(1)) auto
  show ?case
    using lt IH py_items_getitem [OF assms lt]
    by (subst vector_convertible_loop.simps) (simp add: step)
qed

lemma vector_from_list_convertible_all:
  "py_items obj = Some xs \<Longrightarrow>
   vector_from_list_convertible c obj = Inr (list_all (check c) xs)"
  by (simp add: vector_from_list_convertible_def py_items_len vector_convertible_loop_drop)

lemma vector_construct_loop_drop:
  assumes "py_items obj = Some xs"
    and "\<forall>h \<in> set xs. extract_val c h = Inr (f h)"
  shows "i \<le> length xs \<Longrightarrow>
    vector_construct_loop c obj (length xs) i acc = Inr (acc @ map f (drop i xs))"
proof (induction "length xs - i" arbitrary: i acc)
  case 0
  then show ?case
    by (subst vector_construct_loop.simps) simp
next
  case (Suc n)
  then have lt: "i < length xs" by simp
  have step: "drop i xs = xs ! i # drop (Suc i) xs"
    using lt by (simp add: Cons_nth_drop_Suc)
  have ex: "extract_val c (xs ! i) = Inr (f (xs ! i))"
    using assms(2) lt by simp
  have IH: "vector_construct_loop c obj (length xs) (Suc i) (acc @ [f (xs ! i)])
      = Inr ((acc @ [f (xs ! i)]) @ map f (drop (Suc i) xs))"
    using Suc lt by (intro Suc.hyps(1)) auto
  show ?case
    using lt IH ex py_items_getitem [OF assms(1) lt]
    by (subst vector_construct_loop.simps) (simp add: step)
qed

lemma vector_from_list_construct_map:
  assumes "py_items obj = Some xs"
    and "\<forall>h \<in> set xs. extract_val c h = Inr (f h)"
  shows "vector_from_list_construct c obj = Inr (map f xs)"
  using vector_construct_loop_drop [OF assms, of 0 "[]"]
  by (simp add: vector_from_list_construct_def py_items_len [OF assms(1)])

lemma vector_fromHost_unfold:
  "vector_fromHost c obj =
     (case vector_from_list_convertible c obj of
        Inl err \<Rightarrow> Inl err
      | Inr True \<Rightarrow> vector_from_list_construct c obj
      | Inr False \<Rightarrow> Inl TypeConversion)"
  by (simp add: vector_fromHost_def vector_registry_def registry_push_back_def
      vector_from_list_def split: sum.splits bool.splits)

text \<open>
  C1. For an element type and a host sequence \<open>S\<close> with elements \<open>xs\<close>, all of which
  pass the check of the element type and are converted to a native value whose host image
  is the element itself: the conversion of \<open>S\<close> to a native vector succeeds, the vector
  has the length of \<open>S\<close> and holds at each index the conversion of the element of \<open>S\<close>
  at that index, and the host's view of the vector is \<open>xs\<close> again. That the elements
  pass the check is not enough: \<open>construct\<close> extracts them without a check of its own,
  and for \<open>int64_t\<close> the list holding the integer \<open>2^63\<close> passes \<open>convertible\<close>
  and makes \<open>construct\<close> throw.
\<close>

theorem vector_round_trip:
  assumes "py_items S = Some xs"
    and "\<forall>h \<in> set xs. check c h"
    and "\<forall>h \<in> set xs. \<exists>v. extract_val c h = Inr v \<and> to_python c v = h"
  shows "\<exists>vec. vector_fromHost c S = Inr vec
      \<and> length vec = length xs
      \<and> (\<forall>i < length xs. extract_val c (xs ! i) = Inr (vec ! i))
      \<and> vector_toHost c vec = xs"
proof -
  let ?f = "\<lambda>h. projr (extract_val c h)"
  have ex: "\<forall>h \<in> set xs. extract_val c h = Inr (?f h)"
    using assms(3) by force
  have rt: "\<forall>h \<in> set xs. to_python c (?f h) = h"
    using assms(3) by force
  have conv: "vector_from_list_convertible c S = Inr True"
    using assms(1,2) by (simp add: vector_from_list_convertible_all list_all_iff)
  have res: "vector_fromHost c S = Inr (map ?f xs)"
    using conv vector_from_list_construct_map [OF assms(1) ex]
    by (simp add: vector_fromHost_unfold)
  have "vector_toHost c (map ?f xs) = xs"
    using rt by (simp add: vector_toHost_def map_idI)
  moreover have "\<forall>i < length xs. extract_val c (xs ! i) = Inr (map ?f xs ! i)"
    using ex by simp
  ultimately show ?thesis
    using res by simp
qed

theorem vector_round_trip_witness:
  "py_items (PyList [PyInt 3, PyInt 1, PyInt 2]) = Some [PyInt 3, PyInt 1, PyInt 2]
   \<and> vector_fromHost int_conv (PyList [PyInt 3, PyInt 1, PyInt 2]) = Inr [3, 1, 2]
   \<and> vector_toHost int_conv [3, 1, 2] = [PyInt 3, PyInt 1, PyInt 2]"
proof -
  have h1: "py_items (PyList [PyInt 3, PyInt 1, PyInt 2]) = Some [PyInt 3, PyInt 1, PyInt 2]"
    by simp
  have h2: "\<forall>h \<in> set [PyInt 3, PyInt 1, PyInt 2]. check int_conv h"
    by (simp add: int_conv_def)
  have h3: "\<forall>h \<in> set [PyInt 3, PyInt 1, PyInt 2].
      \<exists>v. extract_val int_conv h = Inr v \<and> to_python int_conv v = h"
    by (simp add: int_conv_def)
  from vector_round_trip [OF h1 h2 h3]
  obtain vec where v: "vector_fromHost int_conv (PyList [PyInt 3, PyInt 1, PyInt 2]) = Inr vec"
    "length vec = 3" "vector_toHost int_conv vec = [PyInt 3, PyInt 1, PyInt 2]"
    by auto
  from v(3) have "vec = [3, 1, 2]"
    by (auto simp: vector_toHost_def int_conv_def map_eq_Cons_conv)
  with v h1 show ?thesis by simp
qed

theorem vector_round_trip_counterexample:
  "py_items (PyList [PyInt 9223372036854775808]) = Some [PyInt 9223372036854775808]
   \<and> check int64_conv (PyInt 9223372036854775808)
   \<and> vector_from_list_convertible int64_conv (PyList [PyInt 9223372036854775808]) = Inr True
   \<and> vector_fromHost int64_conv (PyList [PyInt 9223372036854775808]) = Inl HostOverflowError"
proof -
  have conv: "vector_from_list_convertible int64_conv (PyList [PyInt 9223372036854775808])
      = Inr True"
    by (simp add: vector_from_list_convertible_all int64_conv_def)
  have "vector_construct_loop int64_conv (PyList [PyInt 9223372036854775808]) (Suc 0) 0 []
      = Inl HostOverflowError"
    by (subst vector_construct_loop.simps) (simp add: int64_conv_def)
  then have "vector_from_list_construct int64_conv (PyList [PyInt 9223372036854775808])
      = Inl HostOverflowError"
    by (simp add: vector_from_list_construct_def)
  with conv show ?thesis
    by (simp add: vector_fromHost_unfold int64_conv_def)
qed

text \<open>
  C5. On a host sequence the function \<open>convertible\<close> of the sequence converter answers
  whether every element passes the check of the element type; when one element does not,
  the conversion fails with \<open>TypeConversion\<close> and yields no vector.
\<close>

theorem vector_fromHost_rejects_mixed:
  assumes "py_items S = Some xs"
  shows "vector_from_list_convertible c S = Inr (list_all (check c) xs)
    \<and> ((\<exists>h \<in> set xs. \<not> check c h) \<longrightarrow>
          vector_fromHost c S = Inl TypeConversion
          \<and> (\<forall>vec. vector_fromHost c S \<noteq> Inr vec))"
proof -
  have conv: "vector_from_list_convertible c S = Inr (list_all (check c) xs)"
    using assms by (rule vector_from_list_convertible_all)
  have "vector_fromHost c S = Inl TypeConversion" if "\<exists>h \<in> set xs. \<not> check c h"
  proof -
    from that have "list_all (check c) xs = False"
      by (auto simp: list_all_iff)
    with conv show ?thesis
      by (simp add: vector_fromHost_unfold)
  qed
  with conv show ?thesis by auto
qed

theorem vector_fromHost_rejects_mixed_witness:
  "py_items (PyList [PyInt 1, PyStr ''x'']) = Some [PyInt 1, PyStr ''x'']
   \<and> \<not> check int_conv (PyStr ''x'')
   \<and> vector_from_list_convertible int_conv (PyList [PyInt 1, PyStr ''x'']) = Inr False
   \<and> vector_fromHost int_conv (PyList [PyInt 1, PyStr ''x'']) = Inl TypeConversion"
  using vector_fromHost_rejects_mixed [of "PyList [PyInt 1, PyStr ''x'']" "[PyInt 1, PyStr ''x'']" int_conv]
  by (simp add: int_conv_def)

subsection \<open>Properties of the registry and of the degree selector\<close>

lemma rvalue_from_python_first_match:
  assumes "\<forall>e' \<in> set pre. convertible e' obj = Inr False"
    and "convertible e obj = Inr True"
  shows "rvalue_from_python (pre @ e # post) obj = construct e obj"
  using assms by (induction pre) simp_all

lemma rvalue_from_python_no_match:
  assumes "\<forall>e \<in> set chain. convertible e obj = Inr False"
  shows "rvalue_from_python chain obj = Inl TypeConversion"
  using assms by (induction chain) simp_all

lemma deg_t_registry_order:
  "deg_t_registry c_any c_degree =
     [variant_from_python AnyAlt c_any, variant_from_python DegreeAlt c_degree]"
  by (simp add: deg_t_registry_def registry_push_back_def)

lemma variant_convertible_check:
  "convertible (variant_from_python alt c) obj = Inr (check c obj)"
  by (simp add: variant_from_python_def variant_from_python_convertible_def)

text \<open>
  C2. The converters of the degree selector are registered for \<open>boost::any\<close> first and
  for \<open>degree_t\<close> second. A host value that the first accepts is converted by the first,
  to the \<open>boost::any\<close> alternative and never to the \<open>degree_t\<close> alternative, whether or
  not the second accepts it too; a value only the second accepts is converted by the
  second; a value neither accepts fails with \<open>TypeConversion\<close>. The result is a function
  of the registered converters and the value, so converting again gives the same result.
\<close>

theorem deg_t_first_match:
  "(check c_any obj \<longrightarrow>
      deg_t_fromHost c_any c_degree obj = map_sum id AnyAlt (extract_val c_any obj)
      \<and> (\<forall>d. deg_t_fromHost c_any c_degree obj \<noteq> Inr (DegreeAlt d)))
   \<and> (\<not> check c_any obj \<and> check c_degree obj \<longrightarrow>
      deg_t_fromHost c_any c_degree obj = map_sum id DegreeAlt (extract_val c_degree obj))
   \<and> (\<not> check c_any obj \<and> \<not> check c_degree obj \<longrightarrow>
      deg_t_fromHost c_any c_degree obj = Inl TypeConversion)"
proof -
  let ?A = "variant_from_python AnyAlt c_any"
  let ?D = "variant_from_python DegreeAlt c_degree"
  have chain: "deg_t_fromHost c_any c_degree obj = rvalue_from_python ([] @ ?A # [?D]) obj"
    by (simp add: deg_t_fromHost_def deg_t_registry_order)
  have cons: "construct (variant_from_python alt c) obj = map_sum id alt (extract_val c obj)"
    for alt :: "'v \<Rightarrow> 'a deg_t" and c
    by (simp add: variant_from_python_def variant_from_python_construct_def split: sum.splits)
  have first: "deg_t_fromHost c_any c_degree obj = map_sum id AnyAlt (extract_val c_any obj)"
    if "check c_any obj"
    unfolding chain using that
    by (subst rvalue_from_python_first_match) (simp_all add: variant_convertible_check cons)
  have first_alt: "deg_t_fromHost c_any c_degree obj \<noteq> Inr (DegreeAlt d)"
    if "check c_any obj" for d
    using first [OF that] by (cases "extract_val c_any obj") simp_all
  have second: "deg_t_fromHost c_any c_degree obj = map_sum id DegreeAlt (extract_val c_degree obj)"
    if "\<not> check c_any obj" "check c_degree obj"
  proof -
    have "deg_t_fromHost c_any c_degree obj = rvalue_from_python ([?A] @ ?D # []) obj"
      by (simp add: chain)
    also have "\<dots> = construct ?D obj"
      using that by (intro rvalue_from_python_first_match) (simp_all add: variant_convertible_check)
    finally show ?thesis by (simp add: cons)
  qed
  have none: "deg_t_fromHost c_any c_degree obj = Inl TypeConversion"
    if "\<not> check c_any obj" "\<not> check c_degree obj"
    unfolding deg_t_fromHost_def deg_t_registry_order using that
    by (intro rvalue_from_python_no_match) (simp add: variant_convertible_check)
  show ?thesis
    using first first_alt second none by blast
qed

theorem deg_t_first_match_witness:
  "check int_conv (PyInt 1) \<and> check degree_conv (PyInt 1)
   \<and> deg_t_fromHost int_conv degree_conv (PyInt 1) = Inr (AnyAlt 1)
   \<and> \<not> check str_conv (PyInt 1)
   \<and> deg_t_fromHost str_conv degree_conv (PyInt 1) = Inr (DegreeAlt OUT_DEGREE)
   \<and> \<not> check int_conv PyNone \<and> \<not> check degree_conv PyNone
   \<and> deg_t_fromHost int_conv degree_conv PyNone = Inl TypeConversion"
  using deg_t_first_match [of int_conv "PyInt 1" degree_conv]
    deg_t_first_match [of str_conv "PyInt 1" degree_conv]
    deg_t_first_match [of int_conv PyNone degree_conv]
  by (simp add: int_conv_def degree_conv_def str_conv_def)

subsection \<open>Properties of the pair converter\<close>

lemma pair_fromHost_unfold:
  "pair_fromHost c1 c2 obj =
     (case pair_from_tuple_convertible c1 c2 obj of
        Inl err \<Rightarrow> Inl err
      | Inr True \<Rightarrow> pair_from_tuple_construct c1 c2 obj
      | Inr False \<Rightarrow> Inl TypeConversion)"
  by (simp add: pair_fromHost_def pair_registry_def registry_push_back_def
      pair_from_tuple_def split: sum.splits bool.splits)

text \<open>
  On a host sequence with two elements or more: when one of the first two elements does
  not pass its check the pair converter fails with \<open>TypeConversion\<close>; when both pass,
  it yields the pair of both conversions, or the error of the first conversion that
  throws, and never a pair with one component only.
\<close>

lemma pair_fromHost_two_elements:
  assumes "py_items obj = Some xs" and "2 \<le> length xs"
  shows "pair_fromHost c1 c2 obj =
     (if check c1 (xs ! 0) \<and> check c2 (xs ! 1)
      then (case extract_val c1 (xs ! 0) of
              Inl err \<Rightarrow> Inl err
            | Inr a \<Rightarrow> (case extract_val c2 (xs ! 1) of
                           Inl err \<Rightarrow> Inl err
                         | Inr b \<Rightarrow> Inr (a, b)))
      else Inl TypeConversion)"
proof -
  have g0: "py_getitem obj 0 = Inr (xs ! 0)"
    using assms by (cases obj) auto
  have g1: "py_getitem obj (Suc 0) = Inr (xs ! Suc 0)"
    using assms by (cases obj) auto
  have g1': "py_getitem obj 1 = Inr (xs ! 1)"
    using g1 by simp
  show ?thesis
    by (simp add: pair_fromHost_unfold pair_from_tuple_convertible_def
        pair_from_tuple_construct_def g0 g1 g1' del: One_nat_def split: sum.split)
qed

text \<open>
  C6. A host tuple with one element: \<open>convertible\<close> reads \<open>o[1]\<close>, which raises
  \<open>IndexError\<close>, so the conversion ends with that error and not with
  \<open>TypeConversion\<close>.
\<close>

theorem pair_from_tuple_short_sequence:
  "pair_from_tuple_convertible c1 c2 (PyTuple [x]) = Inl HostIndexError
   \<and> pair_fromHost c1 c2 (PyTuple [x]) = Inl HostIndexError
   \<and> pair_fromHost c1 c2 (PyTuple [x]) \<noteq> Inl TypeConversion"
  by (simp add: pair_fromHost_def pair_registry_def registry_push_back_def pair_from_tuple_def
      pair_from_tuple_convertible_def)

theorem pair_from_tuple_short_sequence_witness:
  "pair_fromHost int_conv int_conv (PyTuple [PyInt 1]) = Inl HostIndexError"
  using pair_from_tuple_short_sequence [of int_conv int_conv "PyInt 1"]
  by simp

subsection \<open>Properties of the exception translation\<close>


text \<open>
  C4. When the static type of the exception is one of the three registered types, the
  variable \<open>error\<close> has a value where the translator uses it, and the translator does
  not read it unset; for every other type the variable is left without a value and the
  translator reads it unset.
\<close>

theorem translator_error_assigned:
  "(E \<in> {GraphException, IOException, ValueException} \<longrightarrow>
      (\<exists>cls. translator_error E = Some cls)
      \<and> graph_exception_translator E msg st \<noteq> Inl UnsetCategory)
   \<and> (E \<notin> {GraphException, IOException, ValueException} \<longrightarrow>
      translator_error E = None
      \<and> graph_exception_translator E msg st = Inl UnsetCategory)"
  by (cases E)
    (simp_all add: graph_exception_translator_def translator_error_def is_same_def Let_def)

theorem translator_error_assigned_witness:
  "IOException \<in> {GraphException, IOException, ValueException}
   \<and> translator_error IOException = Some PyExc_IOError
   \<and> graph_exception_translator IOException ''boom''
        \<lparr>class_attr = \<lambda>cls name. None, raised = None\<rparr> \<noteq> Inl UnsetCategory
   \<and> OtherType ''std::exception'' \<notin> {GraphException, IOException, ValueException}
   \<and> translator_error (OtherType ''std::exception'') = None
   \<and> graph_exception_translator (OtherType ''std::exception'') ''boom''
        \<lparr>class_attr = \<lambda>cls name. None, raised = None\<rparr> = Inl UnsetCategory"
  using translator_error_assigned [of IOException "''boom''" "\<lparr>class_attr = \<lambda>cls name. None, raised = None\<rparr>"]
    translator_error_assigned [of "OtherType ''std::exception''" "''boom''" "\<lparr>class_attr = \<lambda>cls name. None, raised = None\<rparr>"]
  by (simp add: translator_error_def is_same_def)

subsection \<open>Properties of the exported array\<close>

text \<open>
  C9. The class of a value type has the method \<open>get_array\<close>, bound to
  \<open>wrap_vector_not_owned\<close>, exactly when the type is one of \<open>numpy_types\<close>. The view
  it returns for a native sequence points to the storage of that sequence and has its
  length; writing an element through the view changes that element of the sequence, as
  read back through the sequence's own element access, and nothing else in the store.
\<close>

theorem array_view_aliases:
  assumes "st a = Some v" and "i < length v"
  shows "\<exists>arr st'. wrap_vector_not_owned st a = Some arr
      \<and> data arr = a \<and> dims arr = length v
      \<and> array_view_set st arr i x = Some st'
      \<and> vector_get_item st' a i = Some x
      \<and> st' a = Some (v[i := x])
      \<and> (\<forall>b. b \<noteq> a \<longrightarrow> st' b = st b)
      \<and> (((''get_array'', WrapVectorNotOwned) \<in> set (snd (export_vector_type numpy_types T)))
           = (T \<in> set numpy_types))"
  using assms
  by (simp add: wrap_vector_not_owned_def array_view_set_def vector_get_item_def
      export_vector_type_def wrap_array_def Let_def)

theorem array_view_aliases_witness:
  "wrap_vector_not_owned [0 \<mapsto> [10, 20, 30 :: int]] 0 = Some \<lparr>data = 0, dims = 3\<rparr>
   \<and> vector_get_item [0 \<mapsto> [10, 20, 30 :: int]] 0 1 = Some 20
   \<and> array_view_set [0 \<mapsto> [10, 20, 30 :: int]] \<lparr>data = 0, dims = 3\<rparr> 1 99
       = Some [0 \<mapsto> [10, 99, 30]]
   \<and> vector_get_item [0 \<mapsto> [10, 99, 30 :: int]] 0 1 = Some 99
   \<and> (''get_array'', WrapVectorNotOwned) \<in> set (snd (export_vector_type [''double''] ''double''))
   \<and> (''get_array'', WrapVectorNotOwned) \<notin> set (snd (export_vector_type [''double''] ''string''))"
  using array_view_aliases [of "[0 \<mapsto> [10, 20, 30 :: int]]" 0 "[10, 20, 30]" 1 99 "[''double'']" "''double''"]
    array_view_aliases [of "[0 \<mapsto> [10, 20, 30 :: int]]" 0 "[10, 20, 30]" 1 99 "[''double'']" "''string''"]
  by (simp add: wrap_vector_not_owned_def vector_get_item_def array_view_set_def)

subsection \<open>Properties of the pickling hooks\<close>

text \<open>
  C10. \<open>set_pickler\<close> stores its argument in \<open>object_pickler\<close> and changes neither
  \<open>object_unpickler\<close> nor the rest of the state; \<open>set_unpickler\<close> stores its argument
  in \<open>object_unpickler\<close> and changes neither \<open>object_pickler\<close> nor the rest of the
  state; a second call replaces what the first call stored.
\<close>

theorem pickler_slots:
  "object_pickler (set_pickler obj st) = obj
   \<and> object_unpickler (set_pickler obj st) = object_unpickler st
   \<and> bridge_state.more (set_pickler obj st) = bridge_state.more st
   \<and> object_unpickler (set_unpickler obj st) = obj
   \<and> object_pickler (set_unpickler obj st) = object_pickler st
   \<and> bridge_state.more (set_unpickler obj st) = bridge_state.more st
   \<and> set_pickler obj (set_pickler old st) = set_pickler obj st
   \<and> set_unpickler obj (set_unpickler old st) = set_unpickler obj st"
  by (simp add: set_pickler_def set_unpickler_def)

end
